theory Spec2Isabelle
  imports Main
begin

section \<open>docker-connector: the data of \<^verbatim>\<open>main.go\<close>\<close>

text \<open>
  The program talks to three collaborators: the ECS control plane (through the AWS SDK),
  the clock and the global random source of the Go runtime, and the external \<^verbatim>\<open>aws\<close>
  command it launches. None of them is code of the repository, so each is a field of an
  environment record below. What the program does to them is written into a trace of
  events, in program order; every function takes the trace so far and returns it extended.
  An answer of a collaborator may depend on everything that happened before: each oracle
  reads the trace at the moment of the call.

  The SDK's structures hold their fields behind pointers (\<^verbatim>\<open>*string\<close>); the
  program dereferences them with \<^verbatim>\<open>*p\<close>, which panics on \<^verbatim>\<open>nil\<close>. A pointer field is
  an \<open>option\<close> here and a dereference of \<open>None\<close> is the result \<open>Panic\<close>.
  The lines written by \<^verbatim>\<open>log.Printf\<close> and \<^verbatim>\<open>fmt.Printf\<close> change no control flow and
  are left out of the trace; \<^verbatim>\<open>log.Fatal\<close> is the exit of the process.
\<close>

record Container =
  Name :: "string option"
  RuntimeId :: "string option"

record Task =
  ContainerInstanceArn :: "string option"
  Containers :: "Container list"

record ContainerInstance =
  Ec2InstanceId :: "string option"

text \<open>An error returned by an SDK call; the program never looks inside it.\<close>

datatype api_error = ApiError string

text \<open>
  The errors the three resolvers build with \<^verbatim>\<open>fmt.Errorf\<close>, one constructor for each
  format string, carrying the argument of its \<^verbatim>\<open>%s\<close>:
  \<^item> \<open>NoRunningTasks s\<close>: "no running tasks found for service %s" (lines 28 and 32);
  \<^item> \<open>DescribeFailed\<close>: "could not describe the ECS task" (lines 45 and 77);
  \<^item> \<open>NoHostInstances\<close>: "could not describe container instance" (line 58);
  \<^item> \<open>NoInstancesForCluster c\<close>: "no container instances found for cluster %s" (line 62);
  \<^item> \<open>ContainerNotFound n\<close>: "no container named %s found in task" (line 84).
\<close>

datatype error =
    NoRunningTasks string
  | DescribeFailed
  | NoHostInstances
  | NoInstancesForCluster string
  | ContainerNotFound string

fun Error_text :: "error \<Rightarrow> string" where
  "Error_text (NoRunningTasks serviceName) = ''no running tasks found for service '' @ serviceName"
| "Error_text DescribeFailed = ''could not describe the ECS task''"
| "Error_text NoHostInstances = ''could not describe container instance''"
| "Error_text (NoInstancesForCluster clusterName) =
     ''no container instances found for cluster '' @ clusterName"
| "Error_text (ContainerNotFound containerName) =
     ''no container named '' @ containerName @ '' found in task''"

text \<open>What a function of the program hands back: a value, an error value, or a panic.\<close>

datatype 'a result = Ok 'a | Err error | Panic

text \<open>The trace: every call that leaves the process, and every use of the random source.\<close>

datatype event =
    EvLoadDefaultConfig "string option" string
  | EvGetCallerIdentity
  | EvListTasks string string
  | EvDescribeTasks string "string list"
  | EvDescribeContainerInstances string "string list"
  | EvRandSeed int
  | EvRandIntn nat
  | EvRun "string list"
  | EvSleep nat

record env =
  config_LoadDefaultConfig :: "string option \<Rightarrow> string \<Rightarrow> api_error option"
  sts_GetCallerIdentity :: "event list \<Rightarrow> api_error option"
  ecs_ListTasks :: "event list \<Rightarrow> string \<Rightarrow> string \<Rightarrow> api_error + string list"
  ecs_DescribeTasks :: "event list \<Rightarrow> string \<Rightarrow> string list \<Rightarrow> api_error + Task list"
  ecs_DescribeContainerInstances ::
    "event list \<Rightarrow> string \<Rightarrow> string list \<Rightarrow> api_error + ContainerInstance list"
  time_Now_UnixNano :: "event list \<Rightarrow> int"
  rand_draw :: "event list \<Rightarrow> nat \<Rightarrow> nat"
  cmd_Run :: "event list \<Rightarrow> string list \<Rightarrow> string option"

text \<open>
  \<^verbatim>\<open>rand.Intn(n)\<close> panics for \<open>n \<le> 0\<close> and otherwise returns an index below \<open>n\<close>.
  Which index is the generator's business: \<open>rand_draw\<close> may be any function of the
  trace (which holds the seeds given so far) and of \<open>n\<close>, and the remainder keeps the
  library's range.
\<close>

definition rand_Intn :: "env \<Rightarrow> event list \<Rightarrow> nat \<Rightarrow> nat option" where
  "rand_Intn e h n = (if n = 0 then None else Some (rand_draw e h n mod n))"

section \<open>The three resolvers\<close>

text \<open>\<^verbatim>\<open>getECSTask\<close>, lines 20 to 49.\<close>

definition getECSTask ::
  "env \<Rightarrow> string \<Rightarrow> string \<Rightarrow> event list \<Rightarrow> event list \<times> (string \<times> string) result" where
  "getECSTask e clusterName serviceName h =
     (let h1 = h @ [EvListTasks clusterName serviceName] in
      (case ecs_ListTasks e h clusterName serviceName of
        Inl err \<Rightarrow> (h1, Err (NoRunningTasks serviceName))
      | Inr TaskArns \<Rightarrow>
          if length TaskArns = 0 then (h1, Err (NoRunningTasks serviceName))
          else if length TaskArns = 0 then (h1, Err (NoRunningTasks serviceName))
          else
            let h2 = h1 @ [EvRandSeed (time_Now_UnixNano e h1)];
                h3 = h2 @ [EvRandIntn (length TaskArns)]
            in (case rand_Intn e h2 (length TaskArns) of
                  None \<Rightarrow> (h3, Panic)
                | Some k \<Rightarrow>
                    (let taskArn = TaskArns ! k;
                         h4 = h3 @ [EvDescribeTasks clusterName [taskArn]]
                     in (case ecs_DescribeTasks e h3 clusterName [taskArn] of
                           Inl err \<Rightarrow> (h4, Err DescribeFailed)
                         | Inr Tasks \<Rightarrow>
                             (case Tasks of
                                [] \<Rightarrow> (h4, Err DescribeFailed)
                              | t # _ \<Rightarrow>
                                  (case ContainerInstanceArn t of
                                     None \<Rightarrow> (h4, Panic)
                                   | Some containerInstanceArn \<Rightarrow>
                                       (h4, Ok (taskArn, containerInstanceArn)))))))))"

text \<open>\<^verbatim>\<open>getEC2InstanceID\<close>, lines 51 to 68. The second test of the length (line 61) is in
  the source and can never succeed after the first.\<close>

definition getEC2InstanceID ::
  "env \<Rightarrow> string \<Rightarrow> string \<Rightarrow> event list \<Rightarrow> event list \<times> string result" where
  "getEC2InstanceID e clusterName containerInstanceArn h =
     (let h1 = h @ [EvDescribeContainerInstances clusterName [containerInstanceArn]] in
      (case ecs_DescribeContainerInstances e h clusterName [containerInstanceArn] of
        Inl err \<Rightarrow> (h1, Err NoHostInstances)
      | Inr ContainerInstances \<Rightarrow>
          if length ContainerInstances = 0 then (h1, Err NoHostInstances)
          else if length ContainerInstances = 0 then (h1, Err (NoInstancesForCluster clusterName))
          else
            let h2 = h1 @ [EvRandSeed (time_Now_UnixNano e h1)];
                h3 = h2 @ [EvRandIntn (length ContainerInstances)]
            in (case rand_Intn e h2 (length ContainerInstances) of
                  None \<Rightarrow> (h3, Panic)
                | Some k \<Rightarrow>
                    (case Ec2InstanceId (ContainerInstances ! k) of
                       None \<Rightarrow> (h3, Panic)
                     | Some instanceID \<Rightarrow> (h3, Ok instanceID)))))"

text \<open>The loop of \<^verbatim>\<open>getContainerID\<close>, lines 79 to 84: the first container whose name
  equals \<open>containerName\<close> ends the scan.\<close>

fun scanContainers :: "Container list \<Rightarrow> string \<Rightarrow> string result" where
  "scanContainers [] containerName = Err (ContainerNotFound containerName)"
| "scanContainers (container # rest) containerName =
     (case Name container of
        None \<Rightarrow> Panic
      | Some name \<Rightarrow>
          if name = containerName then
            (case RuntimeId container of None \<Rightarrow> Panic | Some runtimeId \<Rightarrow> Ok runtimeId)
          else scanContainers rest containerName)"

text \<open>\<^verbatim>\<open>getContainerID\<close>, lines 70 to 85.\<close>

definition getContainerID ::
  "env \<Rightarrow> string \<Rightarrow> string \<Rightarrow> string \<Rightarrow> event list \<Rightarrow> event list \<times> string result" where
  "getContainerID e clusterName taskArn containerName h =
     (let h1 = h @ [EvDescribeTasks clusterName [taskArn]] in
      case ecs_DescribeTasks e h clusterName [taskArn] of
        Inl err \<Rightarrow> (h1, Err DescribeFailed)
      | Inr Tasks \<Rightarrow>
          (case Tasks of
             [] \<Rightarrow> (h1, Err DescribeFailed)
           | t # _ \<Rightarrow> (h1, scanContainers (Containers t) containerName)))"

section \<open>The session launcher\<close>

text \<open>\<^verbatim>\<open>startSSMSession\<close>, lines 87 to 104: the argument vector (lines 88 to 98), then
  \<^verbatim>\<open>cmd.Run()\<close>, whose error (or \<^verbatim>\<open>nil\<close>, here \<open>None\<close>) is returned as it is.
  \<open>profile\<close> is the pointer \<^verbatim>\<open>*string\<close>.\<close>

definition ssmCmd :: "string \<Rightarrow> string \<Rightarrow> string option \<Rightarrow> string \<Rightarrow> string list" where
  \<open>ssmCmd instanceID containerID profile region =
     [''aws'', ''ssm'', ''start-session'',
      ''--target'', instanceID,
      ''--document-name'', ''AWS-StartInteractiveCommand'',
      ''--parameters'', ''{"command":["sudo docker exec -it '' @ containerID @ '' bash"]}'',
      ''--region'', region]
     @ (case profile of None \<Rightarrow> [] | Some p \<Rightarrow> [''--profile'', p])\<close>

definition startSSMSession ::
  "env \<Rightarrow> string \<Rightarrow> string \<Rightarrow> string option \<Rightarrow> string \<Rightarrow> event list
     \<Rightarrow> event list \<times> string option" where
  "startSSMSession e instanceID containerID profile region h =
     (let cmd = ssmCmd instanceID containerID profile region
      in (h @ [EvRun cmd], cmd_Run e h cmd))"

text \<open>\<^verbatim>\<open>validateAWSCredentials\<close>, lines 106 to 119: \<open>True\<close> for the \<^verbatim>\<open>nil\<close> error.\<close>

definition validateAWSCredentials :: "env \<Rightarrow> event list \<Rightarrow> event list \<times> bool" where
  "validateAWSCredentials e h =
     (h @ [EvGetCallerIdentity],
      (case sts_GetCallerIdentity e h of Some err \<Rightarrow> False | None \<Rightarrow> True))"

section \<open>The retry controller\<close>

text \<open>The values of the four flags after \<^verbatim>\<open>flag.Parse()\<close>; a flag the caller did not
  give holds its default, the empty string.\<close>

record flags =
  flag_cluster :: string
  flag_service :: string
  flag_container :: string
  flag_profile :: string

definition maxRetries :: nat where
  "maxRetries = 3"

text \<open>\<^verbatim>\<open>time.Second * 5\<close>, in nanoseconds.\<close>

definition backoffDelay :: nat where
  "backoffDelay = 1000000000 * 5"

text \<open>
  One pass through the body of the loop, lines 156 to 196, up to the point where the
  retry policy decides: which step failed and with what, or that the session ran.
  Every identifier the body uses is declared inside it.
\<close>

datatype attempt_result =
    TaskFailed error
  | InstanceFailed error
  | ContainerFailed error
  | SessionFailed string
  | SessionStarted
  | Panicked

definition attempt ::
  "env \<Rightarrow> flags \<Rightarrow> string option \<Rightarrow> string \<Rightarrow> event list \<Rightarrow> event list \<times> attempt_result" where
  "attempt e f profilePtr region h =
     (case getECSTask e (flag_cluster f) (flag_service f) h of
        (h1, Panic) \<Rightarrow> (h1, Panicked)
      | (h1, Err err) \<Rightarrow> (h1, TaskFailed err)
      | (h1, Ok (taskArn, containerInstanceArn)) \<Rightarrow>
          (case getEC2InstanceID e (flag_cluster f) containerInstanceArn h1 of
             (h2, Panic) \<Rightarrow> (h2, Panicked)
           | (h2, Err err) \<Rightarrow> (h2, InstanceFailed err)
           | (h2, Ok instanceID) \<Rightarrow>
               (case getContainerID e (flag_cluster f) taskArn (flag_container f) h2 of
                  (h3, Panic) \<Rightarrow> (h3, Panicked)
                | (h3, Err err) \<Rightarrow> (h3, ContainerFailed err)
                | (h3, Ok containerID) \<Rightarrow>
                    (case startSSMSession e instanceID containerID profilePtr region h3 of
                       (h4, None) \<Rightarrow> (h4, SessionStarted)
                     | (h4, Some err) \<Rightarrow> (h4, SessionFailed err)))))"

text \<open>How the process ends: \<^verbatim>\<open>main\<close> returns (exit status 0), \<^verbatim>\<open>log.Fatal\<close> (exit
  status 1) or an uncaught panic (exit status 2).\<close>

datatype fatal =
    Usage
  | ConfigError api_error
  | AuthError
  | TaskError error
  | InstanceError error
  | ContainerError error
  | SessionError nat

datatype exit = Success | Fatal fatal | Crashed

fun exit_status :: "exit \<Rightarrow> nat" where
  "exit_status Success = 0"
| "exit_status (Fatal _) = 1"
| "exit_status Crashed = 2"

text \<open>
  The loop of \<^verbatim>\<open>main\<close>, lines 155 to 213, from the iteration \<open>i\<close> on. A failed resolver
  ends the process on the last iteration and otherwise sleeps and goes on (lines 157 to
  165, 170 to 178, 183 to 191); a failed session sleeps on every iteration but the last
  (lines 205 to 208) and goes on; a session that ran leaves the loop with
  \<^verbatim>\<open>retrySuccess\<close> set. Leaving the loop by its condition is line 211 with
  \<^verbatim>\<open>retrySuccess\<close> still false.
\<close>

function main_loop ::
  "env \<Rightarrow> flags \<Rightarrow> string option \<Rightarrow> string \<Rightarrow> nat \<Rightarrow> event list \<Rightarrow> event list \<times> exit" where
  "main_loop e f profilePtr region i h =
     (if i < maxRetries then
        (case attempt e f profilePtr region h of
           (h1, Panicked) \<Rightarrow> (h1, Crashed)
         | (h1, TaskFailed err) \<Rightarrow>
             if i = maxRetries - 1 then (h1, Fatal (TaskError err))
             else main_loop e f profilePtr region (i + 1) (h1 @ [EvSleep backoffDelay])
         | (h1, InstanceFailed err) \<Rightarrow>
             if i = maxRetries - 1 then (h1, Fatal (InstanceError err))
             else main_loop e f profilePtr region (i + 1) (h1 @ [EvSleep backoffDelay])
         | (h1, ContainerFailed err) \<Rightarrow>
             if i = maxRetries - 1 then (h1, Fatal (ContainerError err))
             else main_loop e f profilePtr region (i + 1) (h1 @ [EvSleep backoffDelay])
         | (h1, SessionStarted) \<Rightarrow> (h1, Success)
         | (h1, SessionFailed err) \<Rightarrow>
             if i < maxRetries - 1
             then main_loop e f profilePtr region (i + 1) (h1 @ [EvSleep backoffDelay])
             else main_loop e f profilePtr region (i + 1) h1)
      else (h, Fatal (SessionError maxRetries)))"
  by pat_completeness auto
termination
  by (relation "measure (\<lambda>(e, f, profilePtr, region, i, h). maxRetries - i)") auto

declare main_loop.simps [simp del]

text \<open>
  \<^verbatim>\<open>main\<close>, lines 121 to 213. \<^verbatim>\<open>flag.String\<close> returns a pointer to the flag's value,
  never \<^verbatim>\<open>nil\<close>; that pointer is what line 196 hands to \<^verbatim>\<open>startSSMSession\<close>.
\<close>

definition main :: "env \<Rightarrow> flags \<Rightarrow> event list \<times> exit" where
  "main e f =
     (if flag_service f = '''' \<or> flag_container f = '''' then ([], Fatal Usage)
      else
        let region = ''eu-west-2'';
            profilePtr = Some (flag_profile f);
            sharedProfile = (if flag_profile f \<noteq> '''' then Some (flag_profile f) else None);
            h1 = [EvLoadDefaultConfig sharedProfile region]
        in case config_LoadDefaultConfig e sharedProfile region of
             Some err \<Rightarrow> (h1, Fatal (ConfigError err))
           | None \<Rightarrow>
               (case validateAWSCredentials e h1 of
                  (h2, False) \<Rightarrow> (h2, Fatal AuthError)
                | (h2, True) \<Rightarrow> main_loop e f profilePtr region 0 h2))"

section \<open>Reading a trace\<close>

text \<open>The durations of the sleeps of a trace, in order.\<close>

fun sleeps :: "event list \<Rightarrow> nat list" where
  "sleeps [] = []"
| "sleeps (EvSleep d # h) = d # sleeps h"
| "sleeps (ev # h) = sleeps h"

text \<open>Only \<^verbatim>\<open>getECSTask\<close> lists tasks, once, and every pass through the loop's body
  starts with it: the \<^verbatim>\<open>ListTasks\<close> calls of a trace count the attempts.\<close>

fun is_EvListTasks :: "event \<Rightarrow> bool" where
  "is_EvListTasks (EvListTasks c s) = True"
| "is_EvListTasks ev = False"

definition attempts :: "event list \<Rightarrow> nat" where
  "attempts h = length (filter is_EvListTasks h)"

text \<open>The argument vectors of the commands a trace launched, in order.\<close>

fun runs :: "event list \<Rightarrow> string list list" where
  "runs [] = []"
| "runs (EvRun cmd # h) = cmd # runs h"
| "runs (ev # h) = runs h"

text \<open>What the command line holds after its eleven fixed arguments (lines 89 to 93),
  for a profile pointer: nothing for \<^verbatim>\<open>nil\<close>, else the flag and the string
  pointed to.\<close>

fun profile_arguments :: "string option \<Rightarrow> string list" where
  "profile_arguments None = []"
| "profile_arguments (Some pr) = [''--profile'', pr]"

text \<open>The results of a pass that the retry policy answers with another pass or with the
  fatal exit: an error of a resolver or of the session tool.\<close>

fun failed :: "attempt_result \<Rightarrow> bool" where
  "failed (TaskFailed err) = True"
| "failed (InstanceFailed err) = True"
| "failed (ContainerFailed err) = True"
| "failed (SessionFailed err) = True"
| "failed SessionStarted = False"
| "failed Panicked = False"

text \<open>The fatal message of the last iteration, by what failed in it (lines 159, 172,
  185 and 212).\<close>

fun last_fatal :: "attempt_result \<Rightarrow> fatal" where
  "last_fatal (TaskFailed err) = TaskError err"
| "last_fatal (InstanceFailed err) = InstanceError err"
| "last_fatal (ContainerFailed err) = ContainerError err"
| "last_fatal r = SessionError maxRetries"

text \<open>An environment in which every failed call of the control plane is replaced by
  the same call answering with an empty list.\<close>

definition failures_as_empty :: "env \<Rightarrow> env" where
  "failures_as_empty e =
     e\<lparr>ecs_ListTasks :=
         (\<lambda>h c s. case ecs_ListTasks e h c s of Inl err \<Rightarrow> Inr [] | Inr arns \<Rightarrow> Inr arns),
       ecs_DescribeTasks :=
         (\<lambda>h c ts. case ecs_DescribeTasks e h c ts of Inl err \<Rightarrow> Inr [] | Inr ds \<Rightarrow> Inr ds),
       ecs_DescribeContainerInstances :=
         (\<lambda>h c is. case ecs_DescribeContainerInstances e h c is of
                      Inl err \<Rightarrow> Inr [] | Inr ds \<Rightarrow> Inr ds)\<rparr>"

section \<open>Example runs\<close>

text \<open>
  The scenario of the specification: cluster "prod", service "web"; the control plane
  knows one task T1 on host reference H1, which is instance I1, and T1 runs the
  containers "app" (rt-123) and "sidecar" (rt-456). The session tool succeeds.
\<close>

definition example_task :: Task where
  "example_task =
     \<lparr>ContainerInstanceArn = Some ''H1'',
      Containers = [\<lparr>Name = Some ''app'', RuntimeId = Some ''rt-123''\<rparr>,
                    \<lparr>Name = Some ''sidecar'', RuntimeId = Some ''rt-456''\<rparr>]\<rparr>"

definition example_env :: env where
  "example_env =
     \<lparr>config_LoadDefaultConfig = (\<lambda>p r. None),
      sts_GetCallerIdentity = (\<lambda>h. None),
      ecs_ListTasks = (\<lambda>h c s. Inr [''T1'']),
      ecs_DescribeTasks = (\<lambda>h c ts. Inr [example_task]),
      ecs_DescribeContainerInstances = (\<lambda>h c is. Inr [\<lparr>Ec2InstanceId = Some ''I1''\<rparr>]),
      time_Now_UnixNano = (\<lambda>h. 1700000000000000000 + int (length h)),
      rand_draw = (\<lambda>h n. 12345),
      cmd_Run = (\<lambda>h cmd. None)\<rparr>"

text \<open>The same, but the session tool fails on its first two launches.\<close>

definition flaky_env :: env where
  "flaky_env =
     example_env\<lparr>cmd_Run :=
       (\<lambda>h cmd. if length (runs h) < 2 then Some ''exit status 255'' else None)\<rparr>"


definition example_flags :: flags where
  "example_flags =
     \<lparr>flag_cluster = ''prod'', flag_service = ''web'', flag_container = ''app'',
      flag_profile = ''''\<rparr>"

section \<open>The container resolver\<close>

lemma scanContainers_find:
  "scanContainers (map (\<lambda>(n, r). \<lparr>Name = Some n, RuntimeId = Some r\<rparr>) cs) containerName =
     (case find (\<lambda>(n, r). n = containerName) cs of
        None \<Rightarrow> Err (ContainerNotFound containerName)
      | Some (n, r) \<Rightarrow> Ok r)"
  by (induction cs) (auto split: prod.splits)

lemma scanContainers_match:
  assumes "i < length cs" and "Name (cs ! i) = Some name" and "RuntimeId (cs ! i) = Some r"
    and "\<forall>j<i. \<exists>n. Name (cs ! j) = Some n \<and> n \<noteq> name"
  shows "scanContainers cs name = Ok r"
  using assms
proof (induction cs arbitrary: i)
  case Nil
  then show ?case by simp
next
  case (Cons c cs)
  show ?case
  proof (cases i)
    case 0
    with Cons.prems show ?thesis by simp
  next
    case (Suc k)
    from Cons.prems(4) Suc obtain n where n: "Name c = Some n" "n \<noteq> name"
      by fastforce
    have "\<forall>j<k. \<exists>n. Name (cs ! j) = Some n \<and> n \<noteq> name"
      using Cons.prems(4) Suc by fastforce
    with Cons.IH [of k] Cons.prems(1-3) Suc have "scanContainers cs name = Ok r"
      by simp
    with n show ?thesis by simp
  qed
qed

lemma scanContainers_no_match:
  assumes "\<forall>c\<in>set cs. \<exists>n. Name c = Some n \<and> n \<noteq> name"
  shows "scanContainers cs name = Err (ContainerNotFound name)"
  using assms by (induction cs) auto

text \<open>
  C1. Let \<^verbatim>\<open>DescribeTasks\<close> describe at least one task. \<^verbatim>\<open>getContainerID\<close> makes that
  one call and scans the containers of the first task in list order. If the container
  at a position \<open>i\<close> has the given name and a runtime identifier, and every container
  before it has a name other than the given one, the result is that runtime identifier:
  the first match wins. If every container has a name and none of the names equals the
  given one, the result is the error \<open>ContainerNotFound\<close>, whatever the length of the
  list. So for the containers of the specification's data model, each with a name and a
  runtime identifier (\<open>cs\<close> is any list of such pairs), the result is the runtime
  identifier of the first pair whose name equals the given name, and
  \<open>ContainerNotFound\<close> if there is none. Names are compared as strings, character by
  character.
\<close>

theorem getContainerID_first_match:
  assumes resp: "ecs_DescribeTasks e h cluster [taskArn] = Inr (t # ts)"
  shows "fst (getContainerID e cluster taskArn name h) = h @ [EvDescribeTasks cluster [taskArn]]
       \<and> (\<forall>i r. i < length (Containers t)
              \<and> Name (Containers t ! i) = Some name \<and> RuntimeId (Containers t ! i) = Some r
              \<and> (\<forall>j<i. \<exists>n. Name (Containers t ! j) = Some n \<and> n \<noteq> name) \<longrightarrow>
            snd (getContainerID e cluster taskArn name h) = Ok r)
       \<and> ((\<forall>c\<in>set (Containers t). \<exists>n. Name c = Some n \<and> n \<noteq> name) \<longrightarrow>
            snd (getContainerID e cluster taskArn name h) = Err (ContainerNotFound name))
       \<and> (\<forall>cs. Containers t = map (\<lambda>(n, r). \<lparr>Name = Some n, RuntimeId = Some r\<rparr>) cs \<longrightarrow>
            snd (getContainerID e cluster taskArn name h) =
              (case find (\<lambda>(n, r). n = name) cs of
                 None \<Rightarrow> Err (ContainerNotFound name)
               | Some (n, r) \<Rightarrow> Ok r))"
proof -
  have run: "getContainerID e cluster taskArn name h =
               (h @ [EvDescribeTasks cluster [taskArn]], scanContainers (Containers t) name)"
    by (simp add: getContainerID_def resp)
  have first: "snd (getContainerID e cluster taskArn name h) = Ok r"
    if "i < length (Containers t)" and "Name (Containers t ! i) = Some name"
      and "RuntimeId (Containers t ! i) = Some r"
      and "\<forall>j<i. \<exists>n. Name (Containers t ! j) = Some n \<and> n \<noteq> name" for i r
    using scanContainers_match [OF that] by (simp add: run)
  have none: "snd (getContainerID e cluster taskArn name h) = Err (ContainerNotFound name)"
    if "\<forall>c\<in>set (Containers t). \<exists>n. Name c = Some n \<and> n \<noteq> name"
    using scanContainers_no_match [OF that] by (simp add: run)
  have pairs: "snd (getContainerID e cluster taskArn name h) =
              (case find (\<lambda>(n, r). n = name) cs of
                 None \<Rightarrow> Err (ContainerNotFound name)
               | Some (n, r) \<Rightarrow> Ok r)"
    if "Containers t = map (\<lambda>(n, r). \<lparr>Name = Some n, RuntimeId = Some r\<rparr>) cs" for cs
    using that by (simp add: run scanContainers_find)
  have tr: "fst (getContainerID e cluster taskArn name h) =
              h @ [EvDescribeTasks cluster [taskArn]]"
    by (simp add: run)
  show ?thesis
    using tr first none pairs by blast
qed

theorem getContainerID_first_match_witness:
  "getContainerID example_env ''prod'' ''T1'' ''sidecar'' [] =
     ([EvDescribeTasks ''prod'' [''T1'']], Ok ''rt-456'')
   \<and> getContainerID example_env ''prod'' ''T1'' ''missing'' [] =
     ([EvDescribeTasks ''prod'' [''T1'']], Err (ContainerNotFound ''missing''))"
proof -
  have resp: "ecs_DescribeTasks example_env [] ''prod'' [''T1''] = Inr (example_task # [])"
    by (simp add: example_env_def)
  note fm = getContainerID_first_match [OF resp]
  have second: "Suc 0 < length (Containers example_task)
      \<and> Name (Containers example_task ! Suc 0) = Some ''sidecar''
      \<and> RuntimeId (Containers example_task ! Suc 0) = Some ''rt-456''
      \<and> (\<forall>j<Suc 0. \<exists>n. Name (Containers example_task ! j) = Some n \<and> n \<noteq> ''sidecar'')"
    by (simp add: example_task_def)
  have nomatch: "\<forall>c\<in>set (Containers example_task). \<exists>n. Name c = Some n \<and> n \<noteq> ''missing''"
    by (simp add: example_task_def)
  have r1: "snd (getContainerID example_env ''prod'' ''T1'' ''sidecar'' []) = Ok ''rt-456''"
    using fm [of "''sidecar''", THEN conjunct2, THEN conjunct1, rule_format, OF second] .
  have r2: "snd (getContainerID example_env ''prod'' ''T1'' ''missing'' []) =
      Err (ContainerNotFound ''missing'')"
    using fm [of "''missing''", THEN conjunct2, THEN conjunct2, THEN conjunct1, THEN mp,
        OF nomatch] .
  show ?thesis
    using r1 r2 fm [of "''sidecar''", THEN conjunct1] fm [of "''missing''", THEN conjunct1]
    by (simp add: prod_eq_iff)
qed

section \<open>The task resolver\<close>

lemma getECSTask_empty:
  assumes "ecs_ListTasks e h cluster service = Inr []"
  shows "getECSTask e cluster service h =
           (h @ [EvListTasks cluster service], Err (NoRunningTasks service))"
  using assms by (simp add: getECSTask_def)

lemma getECSTask_api_error:
  assumes "ecs_ListTasks e h cluster service = Inl err"
  shows "getECSTask e cluster service h =
           (h @ [EvListTasks cluster service], Err (NoRunningTasks service))"
  using assms by (simp add: getECSTask_def)

lemma getECSTask_nonempty:
  assumes lst: "ecs_ListTasks e h cluster service = Inr arns" and ne: "arns \<noteq> []"
  defines "h1 \<equiv> h @ [EvListTasks cluster service]"
  defines "h2 \<equiv> h1 @ [EvRandSeed (time_Now_UnixNano e h1)]"
  defines "k \<equiv> rand_draw e h2 (length arns) mod length arns"
  defines "h3 \<equiv> h2 @ [EvRandIntn (length arns)]"
  shows "getECSTask e cluster service h =
           (h3 @ [EvDescribeTasks cluster [arns ! k]],
            case ecs_DescribeTasks e h3 cluster [arns ! k] of
              Inl err \<Rightarrow> Err DescribeFailed
            | Inr [] \<Rightarrow> Err DescribeFailed
            | Inr (t # ts) \<Rightarrow>
                (case ContainerInstanceArn t of
                   None \<Rightarrow> Panic
                 | Some a \<Rightarrow> Ok (arns ! k, a)))"
  using lst ne unfolding h1_def h2_def h3_def k_def
  by (simp add: getECSTask_def rand_Intn_def Let_def split: sum.splits list.splits option.splits)

text \<open>
  C4. When \<^verbatim>\<open>ListTasks\<close> answers with an empty list, \<^verbatim>\<open>getECSTask\<close> returns the error
  \<open>NoRunningTasks\<close> for the service, and the whole pass through the loop's body
  consists of that one \<^verbatim>\<open>ListTasks\<close> call: the trace grows by exactly this event, so
  the pass makes no \<^verbatim>\<open>DescribeTasks\<close> call (neither the one of the task resolver nor
  the one of the container resolver) and no \<^verbatim>\<open>DescribeContainerInstances\<close> call.
\<close>

theorem empty_task_list_stops_attempt:
  assumes "ecs_ListTasks e h (flag_cluster f) (flag_service f) = Inr []"
  shows "getECSTask e (flag_cluster f) (flag_service f) h =
           (h @ [EvListTasks (flag_cluster f) (flag_service f)],
            Err (NoRunningTasks (flag_service f)))
         \<and> attempt e f p region h =
           (h @ [EvListTasks (flag_cluster f) (flag_service f)],
            TaskFailed (NoRunningTasks (flag_service f)))"
  using getECSTask_empty [OF assms] by (simp add: attempt_def)

theorem empty_task_list_stops_attempt_witness:
  "attempt (example_env\<lparr>ecs_ListTasks := \<lambda>h c s. Inr []\<rparr>) example_flags (Some '''')
     ''eu-west-2'' [] =
     ([EvListTasks ''prod'' ''web''], TaskFailed (NoRunningTasks ''web''))"
proof -
  have "ecs_ListTasks (example_env\<lparr>ecs_ListTasks := \<lambda>h c s. Inr []\<rparr>) []
          (flag_cluster example_flags) (flag_service example_flags) = Inr []"
    by simp
  from empty_task_list_stops_attempt [OF this, of "Some ''''" "''eu-west-2''"]
  show ?thesis
    by (simp add: example_flags_def)
qed

text \<open>
  C5. When \<^verbatim>\<open>ListTasks\<close> answers with a non-empty list, \<^verbatim>\<open>getECSTask\<close> seeds the
  random source with the clock read in this very call, draws an index \<open>k\<close> below the
  length of the list with \<^verbatim>\<open>rand.Intn\<close>, and goes on with the task at that index: it
  is the task named in the \<^verbatim>\<open>DescribeTasks\<close> request and the task identifier of every
  successful result. Nothing but the draw decides: whatever index \<open>j\<close> below the length
  the generator draws, the task at \<open>j\<close> is the one selected, so every listed task can be.
  With exactly one task in the list that task is selected, whatever is drawn. (That the
  draws of \<^verbatim>\<open>math/rand\<close> are equally likely is a property of that library's generator
  and of the clock; here the generator is an arbitrary function.)
\<close>

theorem getECSTask_selects_task:
  assumes lst: "ecs_ListTasks e h cluster service = Inr arns" and ne: "arns \<noteq> []"
  defines "h1 \<equiv> h @ [EvListTasks cluster service]"
  defines "seed \<equiv> time_Now_UnixNano e h1"
  defines "k \<equiv> rand_draw e (h1 @ [EvRandSeed seed]) (length arns) mod length arns"
  shows "k < length arns
       \<and> fst (getECSTask e cluster service h) =
           h @ [EvListTasks cluster service, EvRandSeed seed, EvRandIntn (length arns),
                EvDescribeTasks cluster [arns ! k]]
       \<and> (\<forall>t a. snd (getECSTask e cluster service h) = Ok (t, a) \<longrightarrow> t = arns ! k)
       \<and> (\<forall>j<length arns.
             fst (getECSTask (e\<lparr>rand_draw := \<lambda>h n. j\<rparr>) cluster service h) =
               h @ [EvListTasks cluster service, EvRandSeed seed, EvRandIntn (length arns),
                    EvDescribeTasks cluster [arns ! j]])
       \<and> (\<forall>t. arns = [t] \<longrightarrow> arns ! k = t)"
proof -
  have k: "k < length arns"
    using ne by (simp add: k_def)
  note run = getECSTask_nonempty [OF lst ne, folded h1_def seed_def, folded k_def]
  have tr: "fst (getECSTask e cluster service h) =
           h @ [EvListTasks cluster service, EvRandSeed seed, EvRandIntn (length arns),
                EvDescribeTasks cluster [arns ! k]]"
    by (simp add: run h1_def)
  have res: "t = arns ! k" if "snd (getECSTask e cluster service h) = Ok (t, a)" for t a
    using that by (simp add: run split: sum.splits list.splits option.splits)
  have any: "fst (getECSTask (e\<lparr>rand_draw := \<lambda>h n. j\<rparr>) cluster service h) =
               h @ [EvListTasks cluster service, EvRandSeed seed, EvRandIntn (length arns),
                    EvDescribeTasks cluster [arns ! j]]"
    if "j < length arns" for j
  proof -
    have "ecs_ListTasks (e\<lparr>rand_draw := \<lambda>h n. j\<rparr>) h cluster service = Inr arns"
      using lst by simp
    from getECSTask_nonempty [OF this ne] that show ?thesis
      by (simp add: h1_def seed_def)
  qed
  have one: "arns ! k = t" if "arns = [t]" for t
    using that k by simp
  show ?thesis
    using k tr res any one by blast
qed

theorem getECSTask_selects_task_witness:
  "getECSTask (example_env\<lparr>ecs_ListTasks := \<lambda>h c s. Inr [''T1'', ''T2'', ''T3''],
                            rand_draw := \<lambda>h n. 7\<rparr>) ''prod'' ''web'' [] =
     ([EvListTasks ''prod'' ''web'', EvRandSeed 1700000000000000001, EvRandIntn 3,
       EvDescribeTasks ''prod'' [''T2'']], Ok (''T2'', ''H1''))
   \<and> fst (getECSTask example_env ''prod'' ''web'' []) =
     [EvListTasks ''prod'' ''web'', EvRandSeed 1700000000000000001, EvRandIntn 1,
       EvDescribeTasks ''prod'' [''T1'']]"
proof -
  let ?e = "example_env\<lparr>ecs_ListTasks := \<lambda>h c s. Inr [''T1'', ''T2'', ''T3''],
                         rand_draw := \<lambda>h n. 7\<rparr>"
  have l3: "ecs_ListTasks ?e [] ''prod'' ''web'' = Inr [''T1'', ''T2'', ''T3'']"
    by simp
  have l1: "ecs_ListTasks example_env [] ''prod'' ''web'' = Inr [''T1'']"
    by (simp add: example_env_def)
  have ok: "snd (getECSTask ?e ''prod'' ''web'' []) = Ok (''T2'', ''H1'')"
    by (simp add: getECSTask_def rand_Intn_def Let_def example_env_def example_task_def)
  show ?thesis
    using getECSTask_selects_task [OF l3] getECSTask_selects_task [OF l1] ok
    by (simp add: example_env_def prod_eq_iff)
qed

text \<open>
  C9. After \<^verbatim>\<open>ListTasks\<close> answered with a non-empty list, \<^verbatim>\<open>getECSTask\<close> asks
  \<^verbatim>\<open>DescribeTasks\<close> for the selected task, a member of the list. If that call fails
  or describes no task, the result is the error \<open>DescribeFailed\<close>. If it describes at
  least one task and the first carries its host reference (\<^verbatim>\<open>ContainerInstanceArn\<close>),
  the result is the pair of the selected task's identifier and that reference.
\<close>

theorem getECSTask_describes_selected_task:
  assumes lst: "ecs_ListTasks e h cluster service = Inr arns" and ne: "arns \<noteq> []"
  defines "h1 \<equiv> h @ [EvListTasks cluster service]"
  defines "h2 \<equiv> h1 @ [EvRandSeed (time_Now_UnixNano e h1)]"
  defines "taskArn \<equiv> arns ! (rand_draw e h2 (length arns) mod length arns)"
  defines "h3 \<equiv> h2 @ [EvRandIntn (length arns)]"
  shows "fst (getECSTask e cluster service h) = h3 @ [EvDescribeTasks cluster [taskArn]]
       \<and> taskArn \<in> set arns
       \<and> ((\<exists>err. ecs_DescribeTasks e h3 cluster [taskArn] = Inl err)
            \<or> ecs_DescribeTasks e h3 cluster [taskArn] = Inr [] \<longrightarrow>
          snd (getECSTask e cluster service h) = Err DescribeFailed)
       \<and> (\<forall>t ts ref. ecs_DescribeTasks e h3 cluster [taskArn] = Inr (t # ts)
             \<and> ContainerInstanceArn t = Some ref \<longrightarrow>
          snd (getECSTask e cluster service h) = Ok (taskArn, ref))"
proof -
  note run = getECSTask_nonempty [OF lst ne, folded h1_def, folded h2_def,
      folded h3_def taskArn_def]
  have mem: "taskArn \<in> set arns"
    using ne by (simp add: taskArn_def)
  have tr: "fst (getECSTask e cluster service h) = h3 @ [EvDescribeTasks cluster [taskArn]]"
    by (simp add: run)
  have nodata: "snd (getECSTask e cluster service h) = Err DescribeFailed"
    if "(\<exists>err. ecs_DescribeTasks e h3 cluster [taskArn] = Inl err)
          \<or> ecs_DescribeTasks e h3 cluster [taskArn] = Inr []"
    using that by (auto simp: run)
  have data: "snd (getECSTask e cluster service h) = Ok (taskArn, ref)"
    if "ecs_DescribeTasks e h3 cluster [taskArn] = Inr (t # ts)"
      and "ContainerInstanceArn t = Some ref" for t ts ref
    using that by (simp add: run)
  show ?thesis
    using tr mem nodata data by blast
qed

theorem getECSTask_describes_selected_task_witness:
  "getECSTask example_env ''prod'' ''web'' [] =
     ([EvListTasks ''prod'' ''web'', EvRandSeed 1700000000000000001, EvRandIntn 1,
       EvDescribeTasks ''prod'' [''T1'']], Ok (''T1'', ''H1''))
   \<and> getECSTask (example_env\<lparr>ecs_DescribeTasks := \<lambda>h c ts. Inr []\<rparr>) ''prod'' ''web'' [] =
     ([EvListTasks ''prod'' ''web'', EvRandSeed 1700000000000000001, EvRandIntn 1,
       EvDescribeTasks ''prod'' [''T1'']], Err DescribeFailed)"
proof -
  let ?e = "example_env\<lparr>ecs_DescribeTasks := \<lambda>h c ts. Inr []\<rparr>"
  have l1: "ecs_ListTasks example_env [] ''prod'' ''web'' = Inr [''T1'']"
    by (simp add: example_env_def)
  have l2: "ecs_ListTasks ?e [] ''prod'' ''web'' = Inr [''T1'']"
    by (simp add: example_env_def)
  have ne: "[''T1''] \<noteq> []"
    by simp
  note t1 = getECSTask_describes_selected_task [OF l1 ne]
  note t2 = getECSTask_describes_selected_task [OF l2 ne]
  have tr1: "fst (getECSTask example_env ''prod'' ''web'' []) =
      [EvListTasks ''prod'' ''web'', EvRandSeed 1700000000000000001, EvRandIntn 1,
       EvDescribeTasks ''prod'' [''T1'']]"
    using t1 [THEN conjunct1] by (simp add: example_env_def)
  have r1: "snd (getECSTask example_env ''prod'' ''web'' []) = Ok (''T1'', ''H1'')"
    using t1 [THEN conjunct2, THEN conjunct2, THEN conjunct2, rule_format,
        of example_task "[]" "''H1''"]
    by (simp add: example_env_def example_task_def)
  have tr2: "fst (getECSTask ?e ''prod'' ''web'' []) =
      [EvListTasks ''prod'' ''web'', EvRandSeed 1700000000000000001, EvRandIntn 1,
       EvDescribeTasks ''prod'' [''T1'']]"
    using t2 [THEN conjunct1] by (simp add: example_env_def)
  have r2: "snd (getECSTask ?e ''prod'' ''web'' []) = Err DescribeFailed"
    using t2 [THEN conjunct2, THEN conjunct2, THEN conjunct1] by simp
  show ?thesis
    using tr1 r1 tr2 r2 by (simp add: prod_eq_iff)
qed

section \<open>The host resolver\<close>

lemma getEC2InstanceID_empty:
  assumes "ecs_DescribeContainerInstances e h cluster [ref] = Inr []"
  shows "getEC2InstanceID e cluster ref h =
           (h @ [EvDescribeContainerInstances cluster [ref]], Err NoHostInstances)"
  using assms by (simp add: getEC2InstanceID_def)

lemma getEC2InstanceID_api_error:
  assumes "ecs_DescribeContainerInstances e h cluster [ref] = Inl err"
  shows "getEC2InstanceID e cluster ref h =
           (h @ [EvDescribeContainerInstances cluster [ref]], Err NoHostInstances)"
  using assms by (simp add: getEC2InstanceID_def)

lemma getEC2InstanceID_nonempty:
  assumes lst: "ecs_DescribeContainerInstances e h cluster [ref] = Inr cis" and ne: "cis \<noteq> []"
  defines "h1 \<equiv> h @ [EvDescribeContainerInstances cluster [ref]]"
  defines "h2 \<equiv> h1 @ [EvRandSeed (time_Now_UnixNano e h1)]"
  defines "k \<equiv> rand_draw e h2 (length cis) mod length cis"
  shows "getEC2InstanceID e cluster ref h =
           (h2 @ [EvRandIntn (length cis)],
            case Ec2InstanceId (cis ! k) of None \<Rightarrow> Panic | Some i \<Rightarrow> Ok i)"
  using lst ne unfolding h1_def h2_def k_def
  by (simp add: getEC2InstanceID_def rand_Intn_def Let_def split: option.splits)

text \<open>
  C8. Let \<^verbatim>\<open>DescribeContainerInstances\<close> answer with a list of host instances. If the
  list is empty, \<^verbatim>\<open>getEC2InstanceID\<close> fails with \<open>NoHostInstances\<close>, the error whose
  text is "could not describe container instance". Otherwise it seeds the random source
  with the clock read in this call, draws an index \<open>k\<close> below the length of the list
  and returns the instance identifier (\<^verbatim>\<open>Ec2InstanceId\<close>) that the instance at \<open>k\<close>
  carries. Nothing but the draw decides: whatever index \<open>j\<close> below the length is drawn,
  the identifier of the instance at \<open>j\<close> is the result. (That the draws of
  \<^verbatim>\<open>math/rand\<close> are equally likely is a property of that library's generator; here
  the generator is an arbitrary function.)
\<close>

theorem getEC2InstanceID_result:
  assumes lst: "ecs_DescribeContainerInstances e h cluster [ref] = Inr cis"
  defines "h1 \<equiv> h @ [EvDescribeContainerInstances cluster [ref]]"
  defines "seed \<equiv> time_Now_UnixNano e h1"
  defines "k \<equiv> rand_draw e (h1 @ [EvRandSeed seed]) (length cis) mod length cis"
  shows "(cis = [] \<longrightarrow> getEC2InstanceID e cluster ref h = (h1, Err NoHostInstances))
       \<and> Error_text NoHostInstances = ''could not describe container instance''
       \<and> (cis \<noteq> [] \<longrightarrow>
            k < length cis
          \<and> fst (getEC2InstanceID e cluster ref h) =
              h1 @ [EvRandSeed seed, EvRandIntn (length cis)]
          \<and> (\<forall>i. Ec2InstanceId (cis ! k) = Some i \<longrightarrow>
                snd (getEC2InstanceID e cluster ref h) = Ok i)
          \<and> (\<forall>j i. j < length cis \<and> Ec2InstanceId (cis ! j) = Some i \<longrightarrow>
                snd (getEC2InstanceID (e\<lparr>rand_draw := \<lambda>h n. j\<rparr>) cluster ref h) = Ok i))"
proof -
  have none: "getEC2InstanceID e cluster ref h = (h1, Err NoHostInstances)" if "cis = []"
    using getEC2InstanceID_empty [of e h cluster ref] lst that by (simp add: h1_def)
  have some: "k < length cis
          \<and> fst (getEC2InstanceID e cluster ref h) =
              h1 @ [EvRandSeed seed, EvRandIntn (length cis)]
          \<and> (\<forall>i. Ec2InstanceId (cis ! k) = Some i \<longrightarrow>
                snd (getEC2InstanceID e cluster ref h) = Ok i)
          \<and> (\<forall>j i. j < length cis \<and> Ec2InstanceId (cis ! j) = Some i \<longrightarrow>
                snd (getEC2InstanceID (e\<lparr>rand_draw := \<lambda>h n. j\<rparr>) cluster ref h) = Ok i)"
    if ne: "cis \<noteq> []"
  proof -
    have k: "k < length cis"
      using ne by (simp add: k_def)
    note run = getEC2InstanceID_nonempty [OF lst ne, folded h1_def seed_def, folded k_def]
    have tr: "fst (getEC2InstanceID e cluster ref h) =
              h1 @ [EvRandSeed seed, EvRandIntn (length cis)]"
      by (simp add: run)
    have res: "snd (getEC2InstanceID e cluster ref h) = Ok i"
      if "Ec2InstanceId (cis ! k) = Some i" for i
      using that by (simp add: run)
    have any: "snd (getEC2InstanceID (e\<lparr>rand_draw := \<lambda>h n. j\<rparr>) cluster ref h) = Ok i"
      if "j < length cis" and "Ec2InstanceId (cis ! j) = Some i" for j i
    proof -
      have "ecs_DescribeContainerInstances (e\<lparr>rand_draw := \<lambda>h n. j\<rparr>) h cluster [ref] = Inr cis"
        using lst by simp
      from getEC2InstanceID_nonempty [OF this ne] that show ?thesis
        by simp
    qed
    show ?thesis
      using k tr res any by blast
  qed
  show ?thesis
    using none some by simp
qed

theorem getEC2InstanceID_result_witness:
  "getEC2InstanceID (example_env\<lparr>ecs_DescribeContainerInstances := \<lambda>h c is. Inr []\<rparr>)
     ''prod'' ''H1'' [] =
     ([EvDescribeContainerInstances ''prod'' [''H1'']], Err NoHostInstances)
   \<and> getEC2InstanceID
       (example_env\<lparr>ecs_DescribeContainerInstances :=
                      \<lambda>h c is. Inr [\<lparr>Ec2InstanceId = Some ''I1''\<rparr>, \<lparr>Ec2InstanceId = Some ''I2''\<rparr>],
                    rand_draw := \<lambda>h n. 1\<rparr>)
       ''prod'' ''H1'' [] =
     ([EvDescribeContainerInstances ''prod'' [''H1''], EvRandSeed 1700000000000000001,
       EvRandIntn 2], Ok ''I2'')"
proof -
  let ?e0 = "example_env\<lparr>ecs_DescribeContainerInstances := \<lambda>h c is. Inr []\<rparr>"
  let ?e2 = "example_env\<lparr>ecs_DescribeContainerInstances :=
               \<lambda>h c is. Inr [\<lparr>Ec2InstanceId = Some ''I1''\<rparr>, \<lparr>Ec2InstanceId = Some ''I2''\<rparr>],
             rand_draw := \<lambda>h n. 1\<rparr>"
  have l0: "ecs_DescribeContainerInstances ?e0 [] ''prod'' [''H1''] = Inr []"
    by simp
  have l2: "ecs_DescribeContainerInstances ?e2 [] ''prod'' [''H1''] =
              Inr [\<lparr>Ec2InstanceId = Some ''I1''\<rparr>, \<lparr>Ec2InstanceId = Some ''I2''\<rparr>]"
    by simp
  have r0: "getEC2InstanceID ?e0 ''prod'' ''H1'' [] =
     ([EvDescribeContainerInstances ''prod'' [''H1'']], Err NoHostInstances)"
    using getEC2InstanceID_result [OF l0, THEN conjunct1] by simp
  have ne: "[\<lparr>Ec2InstanceId = Some ''I1''\<rparr>, \<lparr>Ec2InstanceId = Some ''I2''\<rparr>] \<noteq> []"
    by simp
  note t2 = getEC2InstanceID_result [OF l2, THEN conjunct2, THEN conjunct2, rule_format, OF ne]
  have tr: "fst (getEC2InstanceID ?e2 ''prod'' ''H1'' []) =
     [EvDescribeContainerInstances ''prod'' [''H1''], EvRandSeed 1700000000000000001,
       EvRandIntn 2]"
    using t2 [THEN conjunct2, THEN conjunct1] by (simp add: example_env_def)
  have res: "snd (getEC2InstanceID ?e2 ''prod'' ''H1'' []) = Ok ''I2''"
    using t2 [THEN conjunct2, THEN conjunct2, THEN conjunct1, rule_format, of "''I2''"]
    by (simp add: example_env_def)
  show ?thesis
    using r0 tr res by (simp add: prod_eq_iff)
qed

section \<open>Failed calls and empty answers\<close>

lemma getContainerID_empty:
  assumes "ecs_DescribeTasks e h cluster [taskArn] = Inr []"
  shows "getContainerID e cluster taskArn name h =
           (h @ [EvDescribeTasks cluster [taskArn]], Err DescribeFailed)"
  using assms by (simp add: getContainerID_def)

lemma getContainerID_api_error:
  assumes "ecs_DescribeTasks e h cluster [taskArn] = Inl err"
  shows "getContainerID e cluster taskArn name h =
           (h @ [EvDescribeTasks cluster [taskArn]], Err DescribeFailed)"
  using assms by (simp add: getContainerID_def)

lemma failures_as_empty_fields [simp]:
  "config_LoadDefaultConfig (failures_as_empty e) = config_LoadDefaultConfig e"
  "sts_GetCallerIdentity (failures_as_empty e) = sts_GetCallerIdentity e"
  "time_Now_UnixNano (failures_as_empty e) = time_Now_UnixNano e"
  "rand_draw (failures_as_empty e) = rand_draw e"
  "cmd_Run (failures_as_empty e) = cmd_Run e"
  by (simp_all add: failures_as_empty_def)

lemma getECSTask_failures_as_empty:
  "getECSTask (failures_as_empty e) cluster service h = getECSTask e cluster service h"
proof -
  have lt: "ecs_ListTasks (failures_as_empty e) h cluster service =
      (case ecs_ListTasks e h cluster service of Inl err \<Rightarrow> Inr [] | Inr arns \<Rightarrow> Inr arns)"
    by (simp add: failures_as_empty_def)
  have dt: "ecs_DescribeTasks (failures_as_empty e) h' cluster ts =
      (case ecs_DescribeTasks e h' cluster ts of Inl err \<Rightarrow> Inr [] | Inr ds \<Rightarrow> Inr ds)" for h' ts
    by (simp add: failures_as_empty_def)
  show ?thesis
    by (simp add: getECSTask_def rand_Intn_def Let_def lt dt split: sum.splits list.splits)
qed

lemma getEC2InstanceID_failures_as_empty:
  "getEC2InstanceID (failures_as_empty e) cluster ref h = getEC2InstanceID e cluster ref h"
proof -
  have dci: "ecs_DescribeContainerInstances (failures_as_empty e) h cluster [ref] =
      (case ecs_DescribeContainerInstances e h cluster [ref] of
         Inl err \<Rightarrow> Inr [] | Inr ds \<Rightarrow> Inr ds)"
    by (simp add: failures_as_empty_def)
  show ?thesis
    by (simp add: getEC2InstanceID_def rand_Intn_def Let_def dci split: sum.splits)
qed

lemma getContainerID_failures_as_empty:
  "getContainerID (failures_as_empty e) cluster taskArn name h =
     getContainerID e cluster taskArn name h"
proof -
  have dt: "ecs_DescribeTasks (failures_as_empty e) h cluster [taskArn] =
      (case ecs_DescribeTasks e h cluster [taskArn] of Inl err \<Rightarrow> Inr [] | Inr ds \<Rightarrow> Inr ds)"
    by (simp add: failures_as_empty_def)
  show ?thesis
    by (simp add: getContainerID_def Let_def dt split: sum.splits)
qed

lemma attempt_failures_as_empty:
  "attempt (failures_as_empty e) f p region h = attempt e f p region h"
proof -
  have run: "startSSMSession (failures_as_empty e) = startSSMSession e"
    by (intro ext) (simp add: startSSMSession_def)
  show ?thesis
    unfolding attempt_def getECSTask_failures_as_empty getEC2InstanceID_failures_as_empty
      getContainerID_failures_as_empty run
    by (rule refl)
qed

lemma main_loop_failures_as_empty:
  "main_loop (failures_as_empty e) f p region i h = main_loop e f p region i h"
proof (induction "maxRetries - i" arbitrary: i h)
  case 0
  then have "\<not> i < maxRetries"
    by simp
  then show ?case
    by (simp add: main_loop.simps [of _ f p region i h])
next
  case (Suc n)
  have IH: "main_loop (failures_as_empty e) f p region (i + 1) h' =
              main_loop e f p region (i + 1) h'" for h'
    using Suc by simp
  show ?case
    unfolding main_loop.simps [of "failures_as_empty e" f p region i h]
      main_loop.simps [of e f p region i h] attempt_failures_as_empty IH
    by (rule refl)
qed

lemma main_failures_as_empty:
  "main (failures_as_empty e) f = main e f"
proof -
  have creds: "validateAWSCredentials (failures_as_empty e) = validateAWSCredentials e"
    by (intro ext) (simp add: validateAWSCredentials_def)
  have loop: "main_loop (failures_as_empty e) = main_loop e"
    by (intro ext) (rule main_loop_failures_as_empty)
  show ?thesis
    unfolding main_def creds loop failures_as_empty_fields
    by (rule refl)
qed

text \<open>
  C10. In each resolver a failed call of the control plane and an empty answer give the
  same result, trace and error alike: \<open>NoRunningTasks\<close> from \<^verbatim>\<open>getECSTask\<close>,
  \<open>NoHostInstances\<close> from \<^verbatim>\<open>getEC2InstanceID\<close>, \<open>DescribeFailed\<close> from
  \<^verbatim>\<open>getContainerID\<close>. More: replace every failed call of an environment by the same
  call answering with an empty list; then each resolver returns what it returned before,
  and the whole program leaves the same trace and ends the same way, so nothing the
  retry loop or the user sees tells the two apart.
\<close>

theorem api_failure_looks_like_empty_result:
  "((\<exists>err. ecs_ListTasks e h cluster service = Inl err)
      \<or> ecs_ListTasks e h cluster service = Inr [] \<longrightarrow>
    getECSTask e cluster service h =
      (h @ [EvListTasks cluster service], Err (NoRunningTasks service)))
 \<and> ((\<exists>err. ecs_DescribeContainerInstances e h cluster [ref] = Inl err)
      \<or> ecs_DescribeContainerInstances e h cluster [ref] = Inr [] \<longrightarrow>
    getEC2InstanceID e cluster ref h =
      (h @ [EvDescribeContainerInstances cluster [ref]], Err NoHostInstances))
 \<and> ((\<exists>err. ecs_DescribeTasks e h cluster [taskArn] = Inl err)
      \<or> ecs_DescribeTasks e h cluster [taskArn] = Inr [] \<longrightarrow>
    getContainerID e cluster taskArn name h =
      (h @ [EvDescribeTasks cluster [taskArn]], Err DescribeFailed))
 \<and> getECSTask (failures_as_empty e) cluster service h = getECSTask e cluster service h
 \<and> getEC2InstanceID (failures_as_empty e) cluster ref h = getEC2InstanceID e cluster ref h
 \<and> getContainerID (failures_as_empty e) cluster taskArn name h =
      getContainerID e cluster taskArn name h
 \<and> main (failures_as_empty e) f = main e f"
proof -
  have a: "getECSTask e cluster service h =
      (h @ [EvListTasks cluster service], Err (NoRunningTasks service))"
    if "(\<exists>err. ecs_ListTasks e h cluster service = Inl err)
      \<or> ecs_ListTasks e h cluster service = Inr []"
    using that getECSTask_api_error getECSTask_empty by blast
  have b: "getEC2InstanceID e cluster ref h =
      (h @ [EvDescribeContainerInstances cluster [ref]], Err NoHostInstances)"
    if "(\<exists>err. ecs_DescribeContainerInstances e h cluster [ref] = Inl err)
      \<or> ecs_DescribeContainerInstances e h cluster [ref] = Inr []"
    using that getEC2InstanceID_api_error getEC2InstanceID_empty by blast
  have c: "getContainerID e cluster taskArn name h =
      (h @ [EvDescribeTasks cluster [taskArn]], Err DescribeFailed)"
    if "(\<exists>err. ecs_DescribeTasks e h cluster [taskArn] = Inl err)
      \<or> ecs_DescribeTasks e h cluster [taskArn] = Inr []"
    using that getContainerID_api_error getContainerID_empty by blast
  show ?thesis
    using a b c getECSTask_failures_as_empty getEC2InstanceID_failures_as_empty
      getContainerID_failures_as_empty main_failures_as_empty
    by blast
qed

theorem api_failure_looks_like_empty_result_witness:
  "getECSTask (example_env\<lparr>ecs_ListTasks := \<lambda>h c s. Inl (ApiError ''timeout'')\<rparr>)
     ''prod'' ''web'' [] = ([EvListTasks ''prod'' ''web''], Err (NoRunningTasks ''web''))
   \<and> getECSTask (example_env\<lparr>ecs_ListTasks := \<lambda>h c s. Inr []\<rparr>)
     ''prod'' ''web'' [] = ([EvListTasks ''prod'' ''web''], Err (NoRunningTasks ''web''))
   \<and> getEC2InstanceID
       (example_env\<lparr>ecs_DescribeContainerInstances := \<lambda>h c is. Inl (ApiError ''timeout'')\<rparr>)
     ''prod'' ''H1'' [] = ([EvDescribeContainerInstances ''prod'' [''H1'']], Err NoHostInstances)
   \<and> getEC2InstanceID (example_env\<lparr>ecs_DescribeContainerInstances := \<lambda>h c is. Inr []\<rparr>)
     ''prod'' ''H1'' [] = ([EvDescribeContainerInstances ''prod'' [''H1'']], Err NoHostInstances)
   \<and> getContainerID (example_env\<lparr>ecs_DescribeTasks := \<lambda>h c ts. Inl (ApiError ''timeout'')\<rparr>)
     ''prod'' ''T1'' ''app'' [] = ([EvDescribeTasks ''prod'' [''T1'']], Err DescribeFailed)
   \<and> getContainerID (example_env\<lparr>ecs_DescribeTasks := \<lambda>h c ts. Inr []\<rparr>)
     ''prod'' ''T1'' ''app'' [] = ([EvDescribeTasks ''prod'' [''T1'']], Err DescribeFailed)"
proof -
  let ?lt1 = "example_env\<lparr>ecs_ListTasks := \<lambda>h c s. Inl (ApiError ''timeout'')\<rparr>"
  let ?lt2 = "example_env\<lparr>ecs_ListTasks := \<lambda>h c s. Inr []\<rparr>"
  let ?ci1 = "example_env\<lparr>ecs_DescribeContainerInstances :=
                \<lambda>h c is. Inl (ApiError ''timeout'')\<rparr>"
  let ?ci2 = "example_env\<lparr>ecs_DescribeContainerInstances := \<lambda>h c is. Inr []\<rparr>"
  let ?dt1 = "example_env\<lparr>ecs_DescribeTasks := \<lambda>h c ts. Inl (ApiError ''timeout'')\<rparr>"
  let ?dt2 = "example_env\<lparr>ecs_DescribeTasks := \<lambda>h c ts. Inr []\<rparr>"
  have a1: "getECSTask ?lt1 ''prod'' ''web'' [] =
      ([EvListTasks ''prod'' ''web''], Err (NoRunningTasks ''web''))"
    using api_failure_looks_like_empty_result
      [where e = ?lt1 and h = "[]" and cluster = "''prod''" and service = "''web''",
        THEN conjunct1]
    by simp
  have a2: "getECSTask ?lt2 ''prod'' ''web'' [] =
      ([EvListTasks ''prod'' ''web''], Err (NoRunningTasks ''web''))"
    using api_failure_looks_like_empty_result
      [where e = ?lt2 and h = "[]" and cluster = "''prod''" and service = "''web''",
        THEN conjunct1]
    by simp
  have b1: "getEC2InstanceID ?ci1 ''prod'' ''H1'' [] =
      ([EvDescribeContainerInstances ''prod'' [''H1'']], Err NoHostInstances)"
    using api_failure_looks_like_empty_result
      [where e = ?ci1 and h = "[]" and cluster = "''prod''" and ref = "''H1''",
        THEN conjunct2, THEN conjunct1]
    by simp
  have b2: "getEC2InstanceID ?ci2 ''prod'' ''H1'' [] =
      ([EvDescribeContainerInstances ''prod'' [''H1'']], Err NoHostInstances)"
    using api_failure_looks_like_empty_result
      [where e = ?ci2 and h = "[]" and cluster = "''prod''" and ref = "''H1''",
        THEN conjunct2, THEN conjunct1]
    by simp
  have c1: "getContainerID ?dt1 ''prod'' ''T1'' ''app'' [] =
      ([EvDescribeTasks ''prod'' [''T1'']], Err DescribeFailed)"
    using api_failure_looks_like_empty_result
      [where e = ?dt1 and h = "[]" and cluster = "''prod''" and taskArn = "''T1''"
        and name = "''app''", THEN conjunct2, THEN conjunct2, THEN conjunct1]
    by simp
  have c2: "getContainerID ?dt2 ''prod'' ''T1'' ''app'' [] =
      ([EvDescribeTasks ''prod'' [''T1'']], Err DescribeFailed)"
    using api_failure_looks_like_empty_result
      [where e = ?dt2 and h = "[]" and cluster = "''prod''" and taskArn = "''T1''"
        and name = "''app''", THEN conjunct2, THEN conjunct2, THEN conjunct1]
    by simp
  show ?thesis
    using a1 a2 b1 b2 c1 c2 by simp
qed

section \<open>Missing fields\<close>

text \<open>
  The theorems about the resolvers speak of answers whose tasks, instances and containers
  carry the fields the program reads. Where a field is \<^verbatim>\<open>nil\<close> the dereference
  panics; no resolver returns an error then, and the loop does not retry.
\<close>

lemma scanContainers_nil_Name:
  "scanContainers (\<lparr>Name = None, RuntimeId = r\<rparr> # rest) name = Panic"
  by simp

lemma scanContainers_nil_RuntimeId:
  "scanContainers (\<lparr>Name = Some name, RuntimeId = None\<rparr> # rest) name = Panic"
  by simp

lemma getECSTask_nil_ContainerInstanceArn:
  assumes "ecs_ListTasks e h cluster service = Inr [taskArn]"
    and "ecs_DescribeTasks e
           (h @ [EvListTasks cluster service,
                 EvRandSeed (time_Now_UnixNano e (h @ [EvListTasks cluster service])),
                 EvRandIntn 1])
           cluster [taskArn] = Inr (t # ts)"
    and "ContainerInstanceArn t = None"
  shows "snd (getECSTask e cluster service h) = Panic"
  using assms by (simp add: getECSTask_def rand_Intn_def Let_def)

lemma getEC2InstanceID_nil_Ec2InstanceId:
  assumes "ecs_DescribeContainerInstances e h cluster [ref] = Inr [\<lparr>Ec2InstanceId = None\<rparr>]"
  shows "snd (getEC2InstanceID e cluster ref h) = Panic"
  using assms by (simp add: getEC2InstanceID_def rand_Intn_def Let_def)

section \<open>What one pass adds to the trace\<close>

lemma sleeps_append [simp]: "sleeps (h @ h') = sleeps h @ sleeps h'"
  by (induction h rule: sleeps.induct) simp_all

lemma runs_append [simp]: "runs (h @ h') = runs h @ runs h'"
  by (induction h rule: runs.induct) simp_all

lemma attempts_append [simp]: "attempts (h @ h') = attempts h + attempts h'"
  by (simp add: attempts_def)

lemma getECSTask_trace:
  "\<exists>evs. fst (getECSTask e cluster service h) = h @ EvListTasks cluster service # evs
         \<and> sleeps evs = [] \<and> attempts evs = 0 \<and> runs evs = []"
  by (simp add: getECSTask_def rand_Intn_def Let_def attempts_def
      split: sum.splits list.splits option.splits)

lemma getEC2InstanceID_trace:
  "\<exists>evs. fst (getEC2InstanceID e cluster ref h) = h @ evs
         \<and> sleeps evs = [] \<and> attempts evs = 0 \<and> runs evs = []"
  by (simp add: getEC2InstanceID_def rand_Intn_def Let_def attempts_def
      split: sum.splits list.splits option.splits)

lemma getContainerID_trace:
  "\<exists>evs. fst (getContainerID e cluster taskArn name h) = h @ evs
         \<and> sleeps evs = [] \<and> attempts evs = 0 \<and> runs evs = []"
  by (simp add: getContainerID_def Let_def attempts_def split: sum.splits list.splits)

lemma startSSMSession_trace:
  "fst (startSSMSession e instanceID containerID p region h) =
     h @ [EvRun (ssmCmd instanceID containerID p region)]"
  by (simp add: startSSMSession_def Let_def)

lemma attempt_trace:
  "\<exists>evs. fst (attempt e f p region h) = h @ EvListTasks (flag_cluster f) (flag_service f) # evs
         \<and> sleeps evs = [] \<and> attempts evs = 0
         \<and> (runs evs = []
              \<or> (\<exists>cmd. runs evs = [cmd]
                    \<and> drop 11 cmd = profile_arguments p))"
proof -
  obtain h1 r1 where g1: "getECSTask e (flag_cluster f) (flag_service f) h = (h1, r1)"
    by (cases "getECSTask e (flag_cluster f) (flag_service f) h")
  obtain ev1 where h1: "h1 = h @ EvListTasks (flag_cluster f) (flag_service f) # ev1"
      and ev1: "sleeps ev1 = []" "attempts ev1 = 0" "runs ev1 = []"
    using getECSTask_trace [of e "flag_cluster f" "flag_service f" h] g1 by auto
  show ?thesis
  proof (cases r1)
    case (Ok pair)
    obtain taskArn ref where pair: "pair = (taskArn, ref)"
      by (cases pair)
    obtain h2 r2 where g2: "getEC2InstanceID e (flag_cluster f) ref h1 = (h2, r2)"
      by (cases "getEC2InstanceID e (flag_cluster f) ref h1")
    obtain ev2 where h2: "h2 = h1 @ ev2" and ev2: "sleeps ev2 = []" "attempts ev2 = 0"
      "runs ev2 = []"
      using getEC2InstanceID_trace [of e "flag_cluster f" ref h1] g2 by auto
    show ?thesis
    proof (cases r2)
      case (Ok instanceID)
      obtain h3 r3 where
        g3: "getContainerID e (flag_cluster f) taskArn (flag_container f) h2 = (h3, r3)"
        by (cases "getContainerID e (flag_cluster f) taskArn (flag_container f) h2")
      obtain ev3 where h3: "h3 = h2 @ ev3" and ev3: "sleeps ev3 = []" "attempts ev3 = 0"
        "runs ev3 = []"
        using getContainerID_trace [of e "flag_cluster f" taskArn "flag_container f" h2] g3
        by auto
      show ?thesis
      proof (cases r3)
        case (Ok containerID)
        have "fst (attempt e f p region h) =
                h3 @ [EvRun (ssmCmd instanceID containerID p region)]"
          using g1 \<open>r1 = Ok pair\<close> pair g2 \<open>r2 = Ok instanceID\<close> g3 Ok
          by (simp add: attempt_def startSSMSession_def Let_def split: option.splits)
        then show ?thesis
          using h1 h2 h3 ev1 ev2 ev3 by (simp add: attempts_def ssmCmd_def split: option.splits)
      next
        case (Err err)
        then have "fst (attempt e f p region h) = h3"
          using g1 \<open>r1 = Ok pair\<close> pair g2 \<open>r2 = Ok instanceID\<close> g3
          by (simp add: attempt_def)
        then show ?thesis
          using h1 h2 h3 ev1 ev2 ev3 by simp
      next
        case Panic
        then have "fst (attempt e f p region h) = h3"
          using g1 \<open>r1 = Ok pair\<close> pair g2 \<open>r2 = Ok instanceID\<close> g3
          by (simp add: attempt_def)
        then show ?thesis
          using h1 h2 h3 ev1 ev2 ev3 by simp
      qed
    next
      case (Err err)
      then have "fst (attempt e f p region h) = h2"
        using g1 \<open>r1 = Ok pair\<close> pair g2 by (simp add: attempt_def)
      then show ?thesis
        using h1 h2 ev1 ev2 by simp
    next
      case Panic
      then have "fst (attempt e f p region h) = h2"
        using g1 \<open>r1 = Ok pair\<close> pair g2 by (simp add: attempt_def)
      then show ?thesis
        using h1 h2 ev1 ev2 by simp
    qed
  next
    case (Err err)
    then have "fst (attempt e f p region h) = h1"
      using g1 by (simp add: attempt_def)
    then show ?thesis
      using h1 ev1 by simp
  next
    case Panic
    then have "fst (attempt e f p region h) = h1"
      using g1 by (simp add: attempt_def)
    then show ?thesis
      using h1 ev1 by simp
  qed
qed

lemma attempt_sleeps:
  assumes "attempt e f p region h = (h', r)"
  shows "sleeps h' = sleeps h"
  using attempt_trace [of e f p region h] assms by auto

lemma attempt_attempts:
  assumes "attempt e f p region h = (h', r)"
  shows "attempts h' = Suc (attempts h)"
  using attempt_trace [of e f p region h] assms by (auto simp: attempts_def)

section \<open>One iteration of the loop\<close>

lemma main_loop_retry:
  assumes "Suc i < maxRetries" and "attempt e f p region h = (h1, r)" and "failed r"
  shows "main_loop e f p region i h =
           main_loop e f p region (Suc i) (h1 @ [EvSleep backoffDelay])"
proof -
  have i: "i < maxRetries" "i \<noteq> maxRetries - 1" "i < maxRetries - 1"
    using assms(1) by auto
  show ?thesis
    using assms(2,3) i by (subst main_loop.simps) (cases r; simp)
qed

lemma main_loop_exhausted:
  "main_loop e f p region maxRetries h = (h, Fatal (SessionError maxRetries))"
  by (subst main_loop.simps) simp

lemma main_loop_last:
  assumes "Suc i = maxRetries" and "attempt e f p region h = (h1, r)" and "failed r"
  shows "main_loop e f p region i h = (h1, Fatal (last_fatal r))"
proof -
  have i: "i < maxRetries" "i = maxRetries - 1" "\<not> i < maxRetries - 1"
    using assms(1) by auto
  show ?thesis
    using assms(2,3) i main_loop_exhausted [of e f p region h1] assms(1)
    by (subst main_loop.simps) (cases r; simp)
qed

lemma main_loop_started:
  assumes "i < maxRetries" and "attempt e f p region h = (h1, SessionStarted)"
  shows "main_loop e f p region i h = (h1, Success)"
  using assms by (subst main_loop.simps) simp


lemmas run_defs =
  attempt_def getECSTask_def getEC2InstanceID_def getContainerID_def startSSMSession_def
  ssmCmd_def rand_Intn_def Let_def

section \<open>The retry policy\<close>

text \<open>
  C2. Let three passes in a row fail, each with an error of a resolver or of the session
  tool: the first on the trace \<open>h0\<close>, the second after the first and one sleep, the third
  after the second and one more sleep. Then the loop, started at \<open>h0\<close>, ends with
  \<^verbatim>\<open>log.Fatalf\<close> (exit status 1) on the trace the third pass left; on the way it made
  exactly \<open>maxRetries = 3\<close> passes and slept exactly \<open>maxRetries - 1 = 2\<close> times, each
  time for the \<open>5 * 10\<^sup>9\<close> nanoseconds of \<open>backoffDelay\<close>, and nothing after the second
  sleep is a sleep.
\<close>

theorem retries_exhausted:
  assumes a1: "attempt e f p region h0 = (h1, r1)" and f1: "failed r1"
    and a2: "attempt e f p region (h1 @ [EvSleep backoffDelay]) = (h2, r2)" and f2: "failed r2"
    and a3: "attempt e f p region (h2 @ [EvSleep backoffDelay]) = (h3, r3)" and f3: "failed r3"
  shows "main_loop e f p region 0 h0 = (h3, Fatal (last_fatal r3))
       \<and> exit_status (Fatal (last_fatal r3)) = 1
       \<and> attempts h3 = attempts h0 + maxRetries \<and> maxRetries = 3
       \<and> sleeps h3 = sleeps h0 @ replicate (maxRetries - 1) backoffDelay
       \<and> backoffDelay = 5 * 1000000000
       \<and> (\<exists>evs. h3 = h2 @ [EvSleep backoffDelay] @ evs \<and> sleeps evs = [])"
proof -
  have "main_loop e f p region 0 h0 = main_loop e f p region 1 (h1 @ [EvSleep backoffDelay])"
    using main_loop_retry [OF _ a1 f1, of 0] by (simp add: maxRetries_def)
  also have "\<dots> = main_loop e f p region 2 (h2 @ [EvSleep backoffDelay])"
    using main_loop_retry [OF _ a2 f2, of 1] by (simp add: maxRetries_def numeral_2_eq_2)
  also have "\<dots> = (h3, Fatal (last_fatal r3))"
    using main_loop_last [OF _ a3 f3, of 2] by (simp add: maxRetries_def)
  finally have run: "main_loop e f p region 0 h0 = (h3, Fatal (last_fatal r3))" .
  have n: "attempts h3 = attempts h0 + maxRetries"
    using attempt_attempts [OF a1] attempt_attempts [OF a2] attempt_attempts [OF a3]
    by (simp add: maxRetries_def attempts_def)
  have s: "sleeps h3 = sleeps h0 @ replicate (maxRetries - 1) backoffDelay"
    using attempt_sleeps [OF a1] attempt_sleeps [OF a2] attempt_sleeps [OF a3]
    by (simp add: maxRetries_def numeral_2_eq_2)
  have l: "\<exists>evs. h3 = h2 @ [EvSleep backoffDelay] @ evs \<and> sleeps evs = []"
    using attempt_trace [of e f p region "h2 @ [EvSleep backoffDelay]"] a3 by auto
  show ?thesis
    using run n s l by (simp add: maxRetries_def backoffDelay_def)
qed

theorem retries_exhausted_witness:
  "main_loop example_env (example_flags\<lparr>flag_container := ''missing''\<rparr>) (Some '''')
     ''eu-west-2'' 0 [] =
     ([EvListTasks ''prod'' ''web'', EvRandSeed 1700000000000000001, EvRandIntn 1,
       EvDescribeTasks ''prod'' [''T1''],
       EvDescribeContainerInstances ''prod'' [''H1''], EvRandSeed 1700000000000000005,
       EvRandIntn 1, EvDescribeTasks ''prod'' [''T1''], EvSleep 5000000000,
       EvListTasks ''prod'' ''web'', EvRandSeed 1700000000000000010, EvRandIntn 1,
       EvDescribeTasks ''prod'' [''T1''],
       EvDescribeContainerInstances ''prod'' [''H1''], EvRandSeed 1700000000000000014,
       EvRandIntn 1, EvDescribeTasks ''prod'' [''T1''], EvSleep 5000000000,
       EvListTasks ''prod'' ''web'', EvRandSeed 1700000000000000019, EvRandIntn 1,
       EvDescribeTasks ''prod'' [''T1''],
       EvDescribeContainerInstances ''prod'' [''H1''], EvRandSeed 1700000000000000023,
       EvRandIntn 1, EvDescribeTasks ''prod'' [''T1'']],
      Fatal (ContainerError (ContainerNotFound ''missing'')))"
proof -
  let ?f = "example_flags\<lparr>flag_container := ''missing''\<rparr>"
  let ?r = "ContainerFailed (ContainerNotFound ''missing'')"
  let ?h1 = "[EvListTasks ''prod'' ''web'', EvRandSeed 1700000000000000001, EvRandIntn 1,
       EvDescribeTasks ''prod'' [''T1''],
       EvDescribeContainerInstances ''prod'' [''H1''], EvRandSeed 1700000000000000005,
       EvRandIntn 1, EvDescribeTasks ''prod'' [''T1'']]"
  let ?h2 = "?h1 @ [EvSleep backoffDelay] @
      [EvListTasks ''prod'' ''web'', EvRandSeed 1700000000000000010, EvRandIntn 1,
       EvDescribeTasks ''prod'' [''T1''],
       EvDescribeContainerInstances ''prod'' [''H1''], EvRandSeed 1700000000000000014,
       EvRandIntn 1, EvDescribeTasks ''prod'' [''T1'']]"
  let ?h3 = "?h2 @ [EvSleep backoffDelay] @
      [EvListTasks ''prod'' ''web'', EvRandSeed 1700000000000000019, EvRandIntn 1,
       EvDescribeTasks ''prod'' [''T1''],
       EvDescribeContainerInstances ''prod'' [''H1''], EvRandSeed 1700000000000000023,
       EvRandIntn 1, EvDescribeTasks ''prod'' [''T1'']]"
  have a1: "attempt example_env ?f (Some '''') ''eu-west-2'' [] = (?h1, ?r)"
    by (simp add: run_defs example_env_def example_task_def example_flags_def)
  have a2: "attempt example_env ?f (Some '''') ''eu-west-2'' (?h1 @ [EvSleep backoffDelay]) =
              (?h2, ?r)"
    by (simp add: run_defs example_env_def example_task_def example_flags_def)
  have a3: "attempt example_env ?f (Some '''') ''eu-west-2'' (?h2 @ [EvSleep backoffDelay]) =
              (?h3, ?r)"
    by (simp add: run_defs example_env_def example_task_def example_flags_def)
  have f: "failed ?r"
    by simp
  show ?thesis
    using retries_exhausted [OF a1 f a2 f a3 f] by (simp add: backoffDelay_def)
qed

text \<open>
  C6. Let the first two passes fail (each with an error of a resolver or of the session
  tool) and the third one start its session. Then the loop ends in success (exit status
  0) on the trace of the third pass, after three passes and exactly two sleeps of
  \<open>backoffDelay\<close>.
\<close>

theorem third_attempt_succeeds:
  assumes a1: "attempt e f p region h0 = (h1, r1)" and f1: "failed r1"
    and a2: "attempt e f p region (h1 @ [EvSleep backoffDelay]) = (h2, r2)" and f2: "failed r2"
    and a3: "attempt e f p region (h2 @ [EvSleep backoffDelay]) = (h3, SessionStarted)"
  shows "main_loop e f p region 0 h0 = (h3, Success)
       \<and> exit_status Success = 0
       \<and> sleeps h3 = sleeps h0 @ [backoffDelay, backoffDelay]
       \<and> attempts h3 = attempts h0 + 3"
proof -
  have "main_loop e f p region 0 h0 = main_loop e f p region 1 (h1 @ [EvSleep backoffDelay])"
    using main_loop_retry [OF _ a1 f1, of 0] by (simp add: maxRetries_def)
  also have "\<dots> = main_loop e f p region 2 (h2 @ [EvSleep backoffDelay])"
    using main_loop_retry [OF _ a2 f2, of 1] by (simp add: maxRetries_def numeral_2_eq_2)
  also have "\<dots> = (h3, Success)"
    using main_loop_started [OF _ a3, of 2] by (simp add: maxRetries_def)
  finally have run: "main_loop e f p region 0 h0 = (h3, Success)" .
  have n: "attempts h3 = attempts h0 + 3"
    using attempt_attempts [OF a1] attempt_attempts [OF a2] attempt_attempts [OF a3]
    by (simp add: attempts_def)
  have s: "sleeps h3 = sleeps h0 @ [backoffDelay, backoffDelay]"
    using attempt_sleeps [OF a1] attempt_sleeps [OF a2] attempt_sleeps [OF a3]
    by simp
  show ?thesis
    using run n s by simp
qed

theorem third_attempt_succeeds_witness:
  "snd (main_loop flaky_env example_flags (Some '''') ''eu-west-2'' 0 []) = Success
   \<and> sleeps (fst (main_loop flaky_env example_flags (Some '''') ''eu-west-2'' 0 [])) =
       [5000000000, 5000000000]
   \<and> length (runs (fst (main_loop flaky_env example_flags (Some '''') ''eu-west-2'' 0 []))) = 3"
proof -
  let ?r = "SessionFailed ''exit status 255''"
  let ?cmd = "ssmCmd ''I1'' ''rt-123'' (Some '''') ''eu-west-2''"
  let ?h1 = "[EvListTasks ''prod'' ''web'', EvRandSeed 1700000000000000001, EvRandIntn 1,
       EvDescribeTasks ''prod'' [''T1''],
       EvDescribeContainerInstances ''prod'' [''H1''], EvRandSeed 1700000000000000005,
       EvRandIntn 1, EvDescribeTasks ''prod'' [''T1''], EvRun ?cmd]"
  let ?h2 = "?h1 @ [EvSleep backoffDelay] @
      [EvListTasks ''prod'' ''web'', EvRandSeed 1700000000000000011, EvRandIntn 1,
       EvDescribeTasks ''prod'' [''T1''],
       EvDescribeContainerInstances ''prod'' [''H1''], EvRandSeed 1700000000000000015,
       EvRandIntn 1, EvDescribeTasks ''prod'' [''T1''], EvRun ?cmd]"
  let ?h3 = "?h2 @ [EvSleep backoffDelay] @
      [EvListTasks ''prod'' ''web'', EvRandSeed 1700000000000000021, EvRandIntn 1,
       EvDescribeTasks ''prod'' [''T1''],
       EvDescribeContainerInstances ''prod'' [''H1''], EvRandSeed 1700000000000000025,
       EvRandIntn 1, EvDescribeTasks ''prod'' [''T1''], EvRun ?cmd]"
  have a1: "attempt flaky_env example_flags (Some '''') ''eu-west-2'' [] = (?h1, ?r)"
    by (simp add: attempt_def getECSTask_def getEC2InstanceID_def getContainerID_def
        startSSMSession_def rand_Intn_def Let_def flaky_env_def example_env_def
        example_task_def example_flags_def)
  have a2: "attempt flaky_env example_flags (Some '''') ''eu-west-2''
              (?h1 @ [EvSleep backoffDelay]) = (?h2, ?r)"
    by (simp add: attempt_def getECSTask_def getEC2InstanceID_def getContainerID_def
        startSSMSession_def rand_Intn_def Let_def flaky_env_def example_env_def
        example_task_def example_flags_def)
  have a3: "attempt flaky_env example_flags (Some '''') ''eu-west-2''
              (?h2 @ [EvSleep backoffDelay]) = (?h3, SessionStarted)"
    by (simp add: attempt_def getECSTask_def getEC2InstanceID_def getContainerID_def
        startSSMSession_def rand_Intn_def Let_def flaky_env_def example_env_def
        example_task_def example_flags_def)
  have f: "failed ?r"
    by simp
  show ?thesis
    using third_attempt_succeeds [OF a1 f a2 f a3] by (simp add: backoffDelay_def)
qed






section \<open>The command line of the session tool\<close>

text \<open>\<^verbatim>\<open>startSSMSession\<close> appends the two profile arguments exactly when its pointer is
  not \<^verbatim>\<open>nil\<close>.\<close>

lemma ssmCmd_profile_arguments:
  "drop 11 (ssmCmd instanceID containerID p region) = profile_arguments p"
  by (cases p) (simp_all add: ssmCmd_def)

text \<open>\<^verbatim>\<open>main\<close> never hands it \<^verbatim>\<open>nil\<close>: every command a run of the program launches
  ends with the flag and the value of the profile flag, also when that value is empty.\<close>

lemma attempt_runs:
  "runs (fst (attempt e f p region h)) = runs h
   \<or> (\<exists>cmd. runs (fst (attempt e f p region h)) = runs h @ [cmd]
         \<and> drop 11 cmd = profile_arguments p)"
  using attempt_trace [of e f p region h] by auto

lemma main_loop_runs:
  "\<exists>cmds. runs (fst (main_loop e f p region i h)) = runs h @ cmds
        \<and> (\<forall>cmd\<in>set cmds. drop 11 cmd = profile_arguments p)"
proof (induction "maxRetries - i" arbitrary: i h)
  case 0
  then have "\<not> i < maxRetries"
    by simp
  then show ?case
    by (simp add: main_loop.simps [of e f p region i h])
next
  case (Suc n)
  obtain h1 r where a: "attempt e f p region h = (h1, r)"
    by (cases "attempt e f p region h")
  have IH: "\<exists>cmds. runs (fst (main_loop e f p region (i + 1) h')) = runs h' @ cmds
        \<and> (\<forall>cmd\<in>set cmds. drop 11 cmd = profile_arguments p)" for h'
    using Suc by simp
  have one: "\<exists>cmds. runs h1 = runs h @ cmds
        \<and> (\<forall>cmd\<in>set cmds. drop 11 cmd = profile_arguments p)"
    using attempt_runs [of e f p region h] a by auto
  have ext: "\<exists>cmds. runs (fst (main_loop e f p region (i + 1) h')) = runs h @ cmds
        \<and> (\<forall>cmd\<in>set cmds. drop 11 cmd = profile_arguments p)"
    if "runs h' = runs h1" for h'
  proof -
    obtain c1 where c1: "runs h1 = runs h @ c1"
        "\<forall>cmd\<in>set c1. drop 11 cmd = profile_arguments p"
      using one by blast
    obtain c2 where c2: "runs (fst (main_loop e f p region (i + 1) h')) = runs h' @ c2"
        "\<forall>cmd\<in>set c2. drop 11 cmd = profile_arguments p"
      using IH [of h'] by blast
    have "runs (fst (main_loop e f p region (i + 1) h')) = runs h @ (c1 @ c2)"
      using c1 c2 that by simp
    moreover have "\<forall>cmd\<in>set (c1 @ c2). drop 11 cmd = profile_arguments p"
      using c1 c2 by auto
    ultimately show ?thesis
      by blast
  qed
  show ?case
    using a one ext [of h1] ext [of "h1 @ [EvSleep backoffDelay]"]
    by (subst main_loop.simps) (cases r; simp)
qed

lemma main_runs:
  assumes "cmd \<in> set (runs (fst (main e f)))"
  shows "drop 11 cmd = [''--profile'', flag_profile f]"
proof -
  have "drop 11 cmd = profile_arguments p"
    if "cmd \<in> set (runs (fst (main_loop e f p region 0 h)))" and "runs h = []" for p region h
    using main_loop_runs [of e f p region 0 h] that by auto
  then show ?thesis
    using assms
    by (auto simp: main_def validateAWSCredentials_def Let_def
        split: if_splits option.splits prod.splits bool.splits)
qed

text \<open>
  C3. The run of the specification's scenario with no profile given (the flag holds the
  empty string): the configuration is loaded without a shared profile, and the command
  launched still ends with \<^verbatim>\<open>--profile\<close> and an empty argument.
\<close>

theorem main_forwards_empty_profile:
  \<open>flag_profile example_flags = ''''
   \<and> main example_env example_flags =
     ([EvLoadDefaultConfig None ''eu-west-2'', EvGetCallerIdentity,
       EvListTasks ''prod'' ''web'', EvRandSeed 1700000000000000003, EvRandIntn 1,
       EvDescribeTasks ''prod'' [''T1''],
       EvDescribeContainerInstances ''prod'' [''H1''], EvRandSeed 1700000000000000007,
       EvRandIntn 1, EvDescribeTasks ''prod'' [''T1''],
       EvRun [''aws'', ''ssm'', ''start-session'', ''--target'', ''I1'',
              ''--document-name'', ''AWS-StartInteractiveCommand'',
              ''--parameters'', ''{"command":["sudo docker exec -it rt-123 bash"]}'',
              ''--region'', ''eu-west-2'', ''--profile'', '''']],
      Success)\<close>
  by (simp add: main_def validateAWSCredentials_def main_loop.simps maxRetries_def
      attempt_def getECSTask_def getEC2InstanceID_def getContainerID_def startSSMSession_def
      ssmCmd_def rand_Intn_def Let_def example_env_def example_task_def example_flags_def)

end
